theory Spec2Isabelle
  imports Main "HOL-Library.Sublist"
begin

section \<open>Python string primitives used by main.py\<close>

text \<open>
  Strings are byte lists. The operations below are the ASCII behaviour of the built-ins
  that main.py calls: \<^verbatim>\<open>str.title\<close>, \<^verbatim>\<open>str.strip\<close>, \<^verbatim>\<open>str.rfind\<close>,
  \<^verbatim>\<open>str(int)\<close> and \<^verbatim>\<open>os.path.splitext\<close>.
\<close>

definition is_upper :: "char \<Rightarrow> bool" where
  "is_upper c = (65 \<le> (of_char c :: nat) \<and> (of_char c :: nat) \<le> 90)"

definition is_lower :: "char \<Rightarrow> bool" where
  "is_lower c = (97 \<le> (of_char c :: nat) \<and> (of_char c :: nat) \<le> 122)"

definition is_cased :: "char \<Rightarrow> bool" where
  "is_cased c = (is_upper c \<or> is_lower c)"

definition to_lower :: "char \<Rightarrow> char" where
  "to_lower c = (if is_upper c then char_of ((of_char c :: nat) + 32) else c)"

definition to_upper :: "char \<Rightarrow> char" where
  "to_upper c = (if is_lower c then char_of ((of_char c :: nat) - 32) else c)"

definition lower :: "string \<Rightarrow> string" where
  "lower s = map to_lower s"

text \<open>
  \<^verbatim>\<open>str.title()\<close>: a character that follows a cased character is lowercased, any other
  character is uppercased; the flag is whether the previous character was cased.
\<close>

fun title_from :: "bool \<Rightarrow> string \<Rightarrow> string" where
  "title_from previous_is_cased [] = []"
| "title_from previous_is_cased (c # cs) =
     (if previous_is_cased then to_lower c else to_upper c) # title_from (is_cased c) cs"

definition title :: "string \<Rightarrow> string" where
  "title s = title_from False s"

text \<open>\<^verbatim>\<open>s.strip(chars)\<close>: drop the characters of \<open>chars\<close> from both ends.\<close>

definition lstrip :: "string \<Rightarrow> string \<Rightarrow> string" where
  "lstrip s chars = dropWhile (\<lambda>c. c \<in> set chars) s"

definition rstrip :: "string \<Rightarrow> string \<Rightarrow> string" where
  "rstrip s chars = rev (dropWhile (\<lambda>c. c \<in> set chars) (rev s))"

definition strip :: "string \<Rightarrow> string \<Rightarrow> string" where
  "strip s chars = rstrip (lstrip s chars) chars"

text \<open>\<^verbatim>\<open>str(n)\<close> for an integer: decimal digits, with a minus sign below zero.\<close>

definition digit_char :: "nat \<Rightarrow> char" where
  "digit_char d = char_of (48 + d)"

fun str_nat :: "nat \<Rightarrow> string" where
  "str_nat n = (if n < 10 then [digit_char n] else str_nat (n div 10) @ [digit_char (n mod 10)])"

declare str_nat.simps [simp del]

definition str_int :: "int \<Rightarrow> string" where
  "str_int i = (if i < 0 then CHR ''-'' # str_nat (nat (- i)) else str_nat (nat i))"

text \<open>\<^verbatim>\<open>p.rfind(c)\<close>: the highest index of \<open>c\<close> in \<open>p\<close>, or \<open>-1\<close>.\<close>

definition rfind :: "string \<Rightarrow> char \<Rightarrow> int" where
  "rfind p c =
     (if c \<in> set p then int (length p) - 1 - int (length (takeWhile (\<lambda>x. x \<noteq> c) (rev p)))
      else - 1)"

text \<open>
  \<^verbatim>\<open>os.path.splitext\<close> (posixpath, through \<^verbatim>\<open>genericpath._splitext\<close>):
  \<^verbatim>\<open>
  sepIndex = p.rfind(sep)
  dotIndex = p.rfind(extsep)
  if dotIndex > sepIndex:
      filenameIndex = sepIndex + 1
      while filenameIndex < dotIndex:
          if p[filenameIndex:filenameIndex+1] != extsep:
              return p[:dotIndex], p[dotIndex:]
          filenameIndex += 1
  return p, p[:0]
  \<close>
  The loop skips the leading dots of the file name; it yields the split as soon as it
  meets another character, and nothing when it runs out.
\<close>

function splitext_loop :: "string \<Rightarrow> nat \<Rightarrow> nat \<Rightarrow> (string \<times> string) option" where
  "splitext_loop p filenameIndex dotIndex =
     (if filenameIndex < dotIndex then
        (if take 1 (drop filenameIndex p) \<noteq> ''.'' then Some (take dotIndex p, drop dotIndex p)
         else splitext_loop p (Suc filenameIndex) dotIndex)
      else None)"
  by pat_completeness auto
termination
  by (relation "measure (\<lambda>(p, filenameIndex, dotIndex). dotIndex - filenameIndex)") auto

declare splitext_loop.simps [simp del]

definition splitext :: "string \<Rightarrow> string \<times> string" where
  "splitext p =
     (let sepIndex = rfind p CHR ''/'';
          dotIndex = rfind p CHR ''.''
      in if dotIndex > sepIndex then
           (case splitext_loop p (nat (sepIndex + 1)) (nat dotIndex) of
              Some r \<Rightarrow> r
            | None \<Rightarrow> (p, []))
         else (p, []))"

section \<open>Content formatter\<close>

text \<open>
  The values of the dictionary given to \<^verbatim>\<open>create_html_content\<close> are strings and, for the
  party size, an integer; the f-string renders each with \<^verbatim>\<open>str\<close>.
\<close>

datatype pyval = PyStr string | PyInt int

fun format_value :: "pyval \<Rightarrow> string" where
  "format_value (PyStr s) = s"
| "format_value (PyInt i) = str_int i"

definition nl :: string where
  "nl = [CHR 0x0A]"

definition html_line :: "string \<times> pyval \<Rightarrow> string" where
  "html_line kv = ''<p><b>'' @ title (fst kv) @ '':</b> '' @ format_value (snd kv) @ ''</p>''"

definition html_head :: string where
  "html_head = nl @ ''    <html>'' @ nl @ ''    <body>'' @ nl
     @ ''        <h2>Form Submission</h2>'' @ nl @ ''        ''"

definition html_tail :: string where
  "html_tail = nl @ ''    </body>'' @ nl @ ''    </html>'' @ nl @ ''    ''"

definition create_html_content :: "(string \<times> pyval) list \<Rightarrow> string" where
  "create_html_content data = html_head @ concat (map html_line data) @ html_tail"

section \<open>Email configuration and background tasks\<close>

text \<open>
  \<^verbatim>\<open>EmailConfig\<close> takes its three secrets from the environment (\<^verbatim>\<open>os.getenv\<close>,
  which yields \<^verbatim>\<open>None\<close> for an unset variable); the environment is a parameter.
\<close>

record EmailConfig =
  sender_email :: "string option"
  receiver_email :: "string option"
  password :: "string option"
  smtp_server :: string
  port :: int

definition get_email_config :: "(string \<rightharpoonup> string) \<Rightarrow> EmailConfig" where
  "get_email_config getenv =
     \<lparr>sender_email = getenv ''HOST_EMAIL'',
      receiver_email = getenv ''HOST_EMAIL'',
      password = getenv ''HOST_PASSWORD'',
      smtp_server = ''mail.privateemail.com'',
      port = 465\<rparr>"

text \<open>
  A scheduled background task is a call of \<^verbatim>\<open>send_email\<close> with its three arguments;
  \<^verbatim>\<open>BackgroundTasks\<close> is the list of scheduled calls and \<^verbatim>\<open>add_task\<close> appends to it.
\<close>

datatype background_task =
  send_email (task_config: EmailConfig) (task_subject: string) (task_content: string)

definition add_task :: "background_task list \<Rightarrow> background_task \<Rightarrow> background_task list" where
  "add_task background_tasks t = background_tasks @ [t]"

section \<open>Requests and responses\<close>

type_synonym form = "string \<rightharpoonup> string"

record request =
  http_method :: string
  path :: string
  form_data :: form

datatype field_error = missing string | invalid string

datatype payload = Template string | Empty | ValidationErrors "field_error list"

text \<open>
  Header names are case-insensitive: a header is stored and looked up under its
  lowercased name, and setting it replaces the value stored before.
\<close>

record response =
  status_code :: int
  headers :: "string \<rightharpoonup> string"
  body :: payload
  background :: "background_task list"

definition set_header :: "(string \<rightharpoonup> string) \<Rightarrow> string \<Rightarrow> string \<Rightarrow> (string \<rightharpoonup> string)" where
  "set_header h k v = h(lower k \<mapsto> v)"

definition get_header :: "response \<Rightarrow> string \<Rightarrow> string option" where
  "get_header r k = headers r (lower k)"

fun update_headers :: "(string \<rightharpoonup> string) \<Rightarrow> (string \<times> string) list \<Rightarrow> (string \<rightharpoonup> string)" where
  "update_headers h [] = h"
| "update_headers h ((k, v) # kvs) = update_headers (set_header h k v) kvs"

definition RedirectResponse :: "string \<Rightarrow> int \<Rightarrow> response" where
  "RedirectResponse url code =
     \<lparr>status_code = code, headers = set_header Map.empty ''location'' url,
      body = Empty, background = []\<rparr>"

definition TemplateResponse :: "string \<Rightarrow> response" where
  "TemplateResponse name =
     \<lparr>status_code = 200,
      headers = set_header Map.empty ''content-type'' ''text/html; charset=utf-8'',
      body = Template name, background = []\<rparr>"

text \<open>
  The framework answers a request whose parameters do not validate with status 422 and
  the list of field errors, without calling the handler.
\<close>

definition RequestValidationError :: "field_error list \<Rightarrow> response" where
  "RequestValidationError errs =
     \<lparr>status_code = 422,
      headers = set_header Map.empty ''content-type'' ''application/json'',
      body = ValidationErrors errs, background = []\<rparr>"

text \<open>
  \<^verbatim>\<open>Form(...)\<close> declares a required form field: an absent or empty value is reported
  as missing. \<^verbatim>\<open>Form(None)\<close> declares an optional one, \<^verbatim>\<open>None\<close> when absent or empty.
  A typed parameter (\<^verbatim>\<open>int\<close>, \<^verbatim>\<open>EmailStr\<close>) is passed through the validator of its type,
  which either yields the converted value or rejects the string.
\<close>

definition Form_required :: "form \<Rightarrow> string \<Rightarrow> field_error + string" where
  "Form_required f name =
     (case f name of
        None \<Rightarrow> Inl (missing name)
      | Some v \<Rightarrow> if v = [] then Inl (missing name) else Inr v)"

definition Form_optional :: "form \<Rightarrow> string \<Rightarrow> string option" where
  "Form_optional f name =
     (case f name of
        None \<Rightarrow> None
      | Some v \<Rightarrow> if v = [] then None else Some v)"

definition validated :: "(string \<Rightarrow> 'a option) \<Rightarrow> string \<Rightarrow> field_error + string \<Rightarrow> field_error + 'a" where
  "validated validator name r =
     (case r of
        Inl e \<Rightarrow> Inl e
      | Inr v \<Rightarrow> (case validator v of None \<Rightarrow> Inl (invalid name) | Some x \<Rightarrow> Inr x))"

definition errors :: "field_error + 'a \<Rightarrow> field_error list" where
  "errors r = (case r of Inl e \<Rightarrow> [e] | Inr _ \<Rightarrow> [])"

section \<open>Page renderer\<close>

definition page_routes :: "string list" where
  "page_routes =
     [''/'', ''/reservations'', ''/about'', ''/bar'', ''/contact'', ''/gallery'', ''/philex-index'']"

definition render_page :: "request \<Rightarrow> response" where
  "render_page req =
     (let stripped = strip (path req) ''/'';
          template = (if stripped = [] then ''index'' else stripped)
      in TemplateResponse (template @ ''.html''))"

section \<open>Contact handler\<close>

text \<open>
  Both handlers first \<^verbatim>\<open>print\<close> their parameters to the server's standard output; that
  output reaches neither the response nor the email and is left out of the model.
\<close>

definition contact_form ::
  "(string \<rightharpoonup> string) \<Rightarrow> background_task list \<Rightarrow> string \<Rightarrow> string \<Rightarrow> string
     \<Rightarrow> response \<times> background_task list" where
  "contact_form getenv background_tasks name email message =
     (let config = get_email_config getenv;
          subject = ''Contact Form: '' @ name;
          content = create_html_content
            [(''name'', PyStr name), (''email'', PyStr email), (''message'', PyStr message)]
      in (RedirectResponse ''/contact'' 302,
          add_task background_tasks (send_email config subject content)))"

text \<open>
  The route \<^verbatim>\<open>POST /contact-us\<close>: the three form parameters are resolved first; the
  handler runs only when all of them validate, and its scheduled tasks are attached to
  the response.
\<close>

definition post_contact_us ::
  "(string \<Rightarrow> string option) \<Rightarrow> (string \<rightharpoonup> string) \<Rightarrow> form \<Rightarrow> response" where
  "post_contact_us EmailStr getenv f =
     (let name = Form_required f ''name'';
          email = validated EmailStr ''email'' (Form_required f ''email'');
          message = Form_required f ''message''
      in case (name, email, message) of
           (Inr n, Inr e, Inr m) \<Rightarrow>
             (case contact_form getenv [] n e m of
                (resp, tasks) \<Rightarrow> resp\<lparr>background := tasks\<rparr>)
         | _ \<Rightarrow> RequestValidationError (errors name @ errors email @ errors message))"

section \<open>Reservation handler\<close>

subsection \<open>The date library calls\<close>

text \<open>
  The handler's \<^verbatim>\<open>try\<close> block calls \<^verbatim>\<open>strptime(date, "%d/%m/%Y")\<close> and
  \<^verbatim>\<open>strftime("%B %d, %Y")\<close>. Both are modelled for these two formats. The parser
  follows the library's regular expression for the format,
  \<^verbatim>\<open>(3[0-1]|[1-2]\d|0[1-9]|[1-9]| [1-9])/(1[0-2]|0[1-9]|[1-9])/(\d\d\d\d)\<close>,
  refuses trailing input, and then refuses a year 0 or a day the month does not have.
  The rendering is the C locale's: the English month name, the day on two digits and
  the year in decimal.
\<close>

datatype exn = AttributeError | ValueError

record pydate =
  year :: nat
  month :: nat
  day :: nat

definition between :: "char \<Rightarrow> char \<Rightarrow> char \<Rightarrow> bool" where
  "between c lo hi = ((of_char lo :: nat) \<le> of_char c \<and> (of_char c :: nat) \<le> of_char hi)"

definition is_digit :: "char \<Rightarrow> bool" where
  "is_digit c = between c CHR ''0'' CHR ''9''"

definition digit_val :: "char \<Rightarrow> nat" where
  "digit_val c = of_char c - 48"

fun split_on :: "char \<Rightarrow> string \<Rightarrow> string list" where
  "split_on sep [] = [[]]"
| "split_on sep (c # cs) =
     (if c = sep then [] # split_on sep cs
      else (case split_on sep cs of [] \<Rightarrow> [[c]] | w # ws \<Rightarrow> (c # w) # ws))"

fun regex_d :: "string \<Rightarrow> nat option" where
  "regex_d [a, b] =
     (if a = CHR ''3'' \<and> between b CHR ''0'' CHR ''1'' then Some (30 + digit_val b)
      else if between a CHR ''1'' CHR ''2'' \<and> is_digit b then Some (10 * digit_val a + digit_val b)
      else if a = CHR ''0'' \<and> between b CHR ''1'' CHR ''9'' then Some (digit_val b)
      else if a = CHR '' '' \<and> between b CHR ''1'' CHR ''9'' then Some (digit_val b)
      else None)"
| "regex_d [a] = (if between a CHR ''1'' CHR ''9'' then Some (digit_val a) else None)"
| "regex_d _ = None"

fun regex_m :: "string \<Rightarrow> nat option" where
  "regex_m [a, b] =
     (if a = CHR ''1'' \<and> between b CHR ''0'' CHR ''2'' then Some (10 + digit_val b)
      else if a = CHR ''0'' \<and> between b CHR ''1'' CHR ''9'' then Some (digit_val b)
      else None)"
| "regex_m [a] = (if between a CHR ''1'' CHR ''9'' then Some (digit_val a) else None)"
| "regex_m _ = None"

fun regex_Y :: "string \<Rightarrow> nat option" where
  "regex_Y [a, b, c, d] =
     (if is_digit a \<and> is_digit b \<and> is_digit c \<and> is_digit d
      then Some (1000 * digit_val a + 100 * digit_val b + 10 * digit_val c + digit_val d)
      else None)"
| "regex_Y _ = None"

definition is_leap :: "nat \<Rightarrow> bool" where
  "is_leap y = (y mod 4 = 0 \<and> (y mod 100 \<noteq> 0 \<or> y mod 400 = 0))"

definition days_in_month :: "nat \<Rightarrow> nat \<Rightarrow> nat" where
  "days_in_month y m =
     (if m = 2 then (if is_leap y then 29 else 28)
      else if m = 4 \<or> m = 6 \<or> m = 9 \<or> m = 11 then 30 else 31)"

definition strptime_dmy :: "string \<Rightarrow> exn + pydate" where
  "strptime_dmy s =
     (case split_on CHR ''/'' s of
        [d, m, y] \<Rightarrow>
          (case (regex_d d, regex_m m, regex_Y y) of
             (Some dd, Some mm, Some yy) \<Rightarrow>
               if 1 \<le> yy \<and> dd \<le> days_in_month yy mm
               then Inr \<lparr>year = yy, month = mm, day = dd\<rparr>
               else Inl ValueError
           | _ \<Rightarrow> Inl ValueError)
      | _ \<Rightarrow> Inl ValueError)"

definition month_names :: "string list" where
  "month_names =
     [''January'', ''February'', ''March'', ''April'', ''May'', ''June'', ''July'',
      ''August'', ''September'', ''October'', ''November'', ''December'']"

definition two_digits :: "nat \<Rightarrow> string" where
  "two_digits n = (if n < 10 then CHR ''0'' # str_nat n else str_nat n)"

definition strftime_long :: "pydate \<Rightarrow> string" where
  "strftime_long d =
     (month_names ! (month d - 1)) @ '' '' @ two_digits (day d) @ '', '' @ str_nat (year d)"

subsection \<open>The handler\<close>

text \<open>
  In \<^verbatim>\<open>reserve_table\<close> the name \<^verbatim>\<open>datetime\<close> is the handler's own parameter, the optional
  form field: a string, or \<^verbatim>\<open>None\<close> when the field is absent (main.py imports no
  module of that name). \<^verbatim>\<open>datetime.strptime\<close> is therefore an attribute lookup on a
  string or on \<^verbatim>\<open>None\<close>. Neither has an attribute \<^verbatim>\<open>strptime\<close>, so the lookup raises
  \<^verbatim>\<open>AttributeError\<close> before anything is called.
\<close>

definition getattr_strptime :: "string option \<Rightarrow> exn + (string \<Rightarrow> exn + pydate)" where
  "getattr_strptime obj =
     (case obj of
        None \<Rightarrow> Inl AttributeError
      | Some s \<Rightarrow> Inl AttributeError)"

text \<open>
  The \<^verbatim>\<open>try\<close> block with its bare \<^verbatim>\<open>except\<close>: any exception leaves the date as
  submitted.
\<close>

definition format_date :: "string option \<Rightarrow> string \<Rightarrow> string" where
  "format_date datetime date =
     (case getattr_strptime datetime of
        Inl e \<Rightarrow> date
      | Inr strptime \<Rightarrow>
          (case strptime date of
             Inl e \<Rightarrow> date
           | Inr date_obj \<Rightarrow> strftime_long date_obj))"

definition reserve_table ::
  "(string \<rightharpoonup> string) \<Rightarrow> background_task list \<Rightarrow> int \<Rightarrow> string \<Rightarrow> string \<Rightarrow> string option
     \<Rightarrow> response \<times> background_task list" where
  "reserve_table getenv background_tasks partysize date time datetime =
     (let config = get_email_config getenv;
          formatted_date = format_date datetime date;
          subject = ''Table Reservation Request'';
          content = create_html_content
            [(''Party Size'', PyInt partysize), (''Date'', PyStr formatted_date),
             (''Time'', PyStr time)]
      in (RedirectResponse ''/bar'' 302,
          add_task background_tasks (send_email config subject content)))"

definition post_reserve_table ::
  "(string \<Rightarrow> int option) \<Rightarrow> (string \<rightharpoonup> string) \<Rightarrow> form \<Rightarrow> response" where
  "post_reserve_table int_validator getenv f =
     (let partysize = validated int_validator ''partysize'' (Form_required f ''partysize'');
          date = Form_required f ''date'';
          time = Form_required f ''time'';
          datetime = Form_optional f ''datetime''
      in case (partysize, date, time) of
           (Inr p, Inr d, Inr t) \<Rightarrow>
             (case reserve_table getenv [] p d t datetime of
                (resp, tasks) \<Rightarrow> resp\<lparr>background := tasks\<rparr>)
         | _ \<Rightarrow> RequestValidationError (errors partysize @ errors date @ errors time))"

text \<open>
  What the specification asks of the date: parse it as day/month/year and render the
  long month-name form, keeping the input when it does not parse.
\<close>

definition spec_format_date :: "string \<Rightarrow> string" where
  "spec_format_date date =
     (case strptime_dmy date of
        Inl e \<Rightarrow> date
      | Inr date_obj \<Rightarrow> strftime_long date_obj)"

section \<open>Response middleware\<close>

definition add_headers :: "request \<Rightarrow> (request \<Rightarrow> response) \<Rightarrow> response" where
  "add_headers req call_next =
     (let resp = call_next req
      in resp\<lparr>headers := update_headers (headers resp)
           [(''X-XSS-Protection'', ''1; mode=block''),
            (''X-Content-Type-Options'', ''nosniff''),
            (''Cache-Control'',
               if status_code resp = 200 then ''public, max-age=1200'' else ''no-store'')]\<rparr>)"

definition content_types :: "(string \<times> string) list" where
  "content_types = [(''.ttf'', ''font/ttf''), (''.woff'', ''font/woff''), (''.woff2'', ''font/woff2'')]"

definition fix_mime_type :: "request \<Rightarrow> (request \<Rightarrow> response) \<Rightarrow> response" where
  "fix_mime_type req call_next =
     (let resp = call_next req;
          ext = snd (splitext (path req))
      in case map_of content_types ext of
           Some t \<Rightarrow> resp\<lparr>headers := set_header (headers resp) ''Content-Type'' t\<rparr>
         | None \<Rightarrow> resp)"

section \<open>The application\<close>

text \<open>
  The router dispatches the seven page routes and the two form routes. Every other
  request (the static mount, an unknown path, a method the route does not take) is
  answered by the framework; that answer is the parameter \<open>other\<close>. The middleware
  registered last is the outermost: a response passes \<^verbatim>\<open>add_headers\<close> first and
  \<^verbatim>\<open>fix_mime_type\<close> after it.
\<close>

definition router ::
  "(string \<Rightarrow> string option) \<Rightarrow> (string \<Rightarrow> int option) \<Rightarrow> (string \<rightharpoonup> string)
     \<Rightarrow> (request \<Rightarrow> response) \<Rightarrow> request \<Rightarrow> response" where
  "router EmailStr int_validator getenv other req =
     (if http_method req = ''GET'' \<and> path req \<in> set page_routes then render_page req
      else if http_method req = ''POST'' \<and> path req = ''/contact-us''
        then post_contact_us EmailStr getenv (form_data req)
      else if http_method req = ''POST'' \<and> path req = ''/reserve-table''
        then post_reserve_table int_validator getenv (form_data req)
      else other req)"

definition middleware :: "(request \<Rightarrow> response) \<Rightarrow> request \<Rightarrow> response" where
  "middleware endpoint req = fix_mime_type req (\<lambda>r. add_headers r endpoint)"

definition app ::
  "(string \<Rightarrow> string option) \<Rightarrow> (string \<Rightarrow> int option) \<Rightarrow> (string \<rightharpoonup> string)
     \<Rightarrow> (request \<Rightarrow> response) \<Rightarrow> request \<Rightarrow> response" where
  "app EmailStr int_validator getenv other req =
     middleware (router EmailStr int_validator getenv other) req"

section \<open>Validators for concrete submissions\<close>

text \<open>
  The handlers are run below on concrete submissions. For those runs the integer
  validator is instantiated with the plain decimal literals (an optional sign and at
  least one digit), and the address validator with the addresses made of one \<open>@\<close>
  between a non-empty local part and a dotted domain, without blanks.
\<close>

fun nat_of_digits :: "nat \<Rightarrow> string \<Rightarrow> nat option" where
  "nat_of_digits acc [] = Some acc"
| "nat_of_digits acc (c # cs) =
     (if is_digit c then nat_of_digits (10 * acc + digit_val c) cs else None)"

definition decimal_int :: "string \<Rightarrow> int option" where
  "decimal_int s =
     (case s of
        [] \<Rightarrow> None
      | c # cs \<Rightarrow>
          if c = CHR ''-'' then
            (if cs = [] then None else map_option (\<lambda>n. - int n) (nat_of_digits 0 cs))
          else if c = CHR ''+'' then
            (if cs = [] then None else map_option int (nat_of_digits 0 cs))
          else map_option int (nat_of_digits 0 s))"

definition plain_address :: "string \<Rightarrow> string option" where
  "plain_address s =
     (case split_on CHR ''@'' s of
        [local_part, domain] \<Rightarrow>
          if local_part \<noteq> [] \<and> CHR '' '' \<notin> set s \<and> CHR ''.'' \<in> set domain
             \<and> hd domain \<noteq> CHR ''.'' \<and> last domain \<noteq> CHR ''.''
          then Some s else None
      | _ \<Rightarrow> None)"

definition example_env :: "string \<rightharpoonup> string" where
  "example_env = [''HOST_EMAIL'' \<mapsto> ''host@example.com'', ''HOST_PASSWORD'' \<mapsto> ''secret'']"

definition not_found :: "request \<Rightarrow> response" where
  "not_found req =
     \<lparr>status_code = 404,
      headers = set_header Map.empty ''content-type'' ''application/json'',
      body = Empty, background = []\<rparr>"

section \<open>What the specification asks of the content formatter\<close>

text \<open>
  The specification wants every value HTML-escaped before it is embedded. This is the
  formatter with that escaping, to compare \<^const>\<open>create_html_content\<close> with.
\<close>

definition escape_char :: "char \<Rightarrow> string" where
  "escape_char c =
     (if c = CHR ''&'' then ''&amp;''
      else if c = CHR ''<'' then ''&lt;''
      else if c = CHR ''>'' then ''&gt;''
      else if c = CHR 0x22 then ''&quot;''
      else if c = CHR 0x27 then ''&#x27;''
      else [c])"

definition html_escape :: "string \<Rightarrow> string" where
  "html_escape s = concat (map escape_char s)"

definition spec_html_line :: "string \<times> pyval \<Rightarrow> string" where
  "spec_html_line kv =
     ''<p><b>'' @ title (fst kv) @ '':</b> '' @ html_escape (format_value (snd kv)) @ ''</p>''"

definition spec_create_html_content :: "(string \<times> pyval) list \<Rightarrow> string" where
  "spec_create_html_content data = html_head @ concat (map spec_html_line data) @ html_tail"

section \<open>The middleware stack\<close>

lemma lower_header_names:
  "lower ''X-XSS-Protection'' = ''x-xss-protection''"
  "lower ''X-Content-Type-Options'' = ''x-content-type-options''"
  "lower ''Cache-Control'' = ''cache-control''"
  "lower ''Content-Type'' = ''content-type''"
  "lower ''content-type'' = ''content-type''"
  "lower ''Location'' = ''location''"
  "lower ''location'' = ''location''"
  by code_simp+

lemma status_code_add_headers:
  "status_code (add_headers req call_next) = status_code (call_next req)"
  by (simp add: add_headers_def Let_def)

lemma body_add_headers: "body (add_headers req call_next) = body (call_next req)"
  by (simp add: add_headers_def Let_def)

lemma background_add_headers:
  "background (add_headers req call_next) = background (call_next req)"
  by (simp add: add_headers_def Let_def)

lemma headers_add_headers:
  "headers (add_headers req call_next) =
     (headers (call_next req))
       (''x-xss-protection'' \<mapsto> ''1; mode=block'',
        ''x-content-type-options'' \<mapsto> ''nosniff'',
        ''cache-control'' \<mapsto>
           (if status_code (call_next req) = 200 then ''public, max-age=1200'' else ''no-store''))"
  by (simp add: add_headers_def Let_def set_header_def lower_header_names)

lemma status_code_fix_mime_type:
  "status_code (fix_mime_type req call_next) = status_code (call_next req)"
  by (simp add: fix_mime_type_def Let_def split: option.splits)

lemma body_fix_mime_type: "body (fix_mime_type req call_next) = body (call_next req)"
  by (simp add: fix_mime_type_def Let_def split: option.splits)

lemma background_fix_mime_type:
  "background (fix_mime_type req call_next) = background (call_next req)"
  by (simp add: fix_mime_type_def Let_def split: option.splits)

lemma headers_fix_mime_type:
  "headers (fix_mime_type req call_next) =
     (case map_of content_types (snd (splitext (path req))) of
        Some t \<Rightarrow> (headers (call_next req))(''content-type'' \<mapsto> t)
      | None \<Rightarrow> headers (call_next req))"
  by (simp add: fix_mime_type_def Let_def set_header_def lower_header_names split: option.splits)

text \<open>The stack changes headers only: status, body and scheduled tasks pass through.\<close>

lemma status_code_middleware:
  "status_code (middleware endpoint req) = status_code (endpoint req)"
  by (simp add: middleware_def status_code_fix_mime_type status_code_add_headers)

lemma body_middleware: "body (middleware endpoint req) = body (endpoint req)"
  by (simp add: middleware_def body_fix_mime_type body_add_headers)

lemma background_middleware:
  "background (middleware endpoint req) = background (endpoint req)"
  by (simp add: middleware_def background_fix_mime_type background_add_headers)

lemma headers_middleware:
  "headers (middleware endpoint req) =
     (let h = (headers (endpoint req))
       (''x-xss-protection'' \<mapsto> ''1; mode=block'',
        ''x-content-type-options'' \<mapsto> ''nosniff'',
        ''cache-control'' \<mapsto>
           (if status_code (endpoint req) = 200 then ''public, max-age=1200'' else ''no-store''))
      in case map_of content_types (snd (splitext (path req))) of
        Some t \<Rightarrow> h(''content-type'' \<mapsto> t)
      | None \<Rightarrow> h)"
  by (simp add: middleware_def headers_fix_mime_type headers_add_headers Let_def
      split: option.splits)

text \<open>
  Claim C5. Whatever the endpoint answers to a request, with whatever status, the response
  that leaves the middleware stack carries \<open>X-Content-Type-Options: nosniff\<close> and
  \<open>X-XSS-Protection: 1; mode=block\<close>; its \<open>Cache-Control\<close> is \<open>public, max-age=1200\<close>
  when the status is 200 and \<open>no-store\<close> otherwise, so it is \<open>public, max-age=1200\<close>
  exactly when the status is 200.
\<close>

theorem security_and_cache_headers:
  "get_header (middleware endpoint req) ''X-Content-Type-Options'' = Some ''nosniff'' \<and>
   get_header (middleware endpoint req) ''X-XSS-Protection'' = Some ''1; mode=block'' \<and>
   get_header (middleware endpoint req) ''Cache-Control'' =
     Some (if status_code (middleware endpoint req) = 200
           then ''public, max-age=1200'' else ''no-store'') \<and>
   (get_header (middleware endpoint req) ''Cache-Control'' = Some ''public, max-age=1200'')
     = (status_code (middleware endpoint req) = 200)"
  by (simp add: get_header_def headers_middleware status_code_middleware lower_header_names
      Let_def split: option.splits)

text \<open>The headers of the 404 answer to a font path that does not exist.\<close>

theorem security_and_cache_headers_witness:
  "get_header (middleware not_found
      \<lparr>http_method = ''GET'', path = ''/static/missing.woff'', form_data = Map.empty\<rparr>)
      ''X-Content-Type-Options'' = Some ''nosniff'' \<and>
   get_header (middleware not_found
      \<lparr>http_method = ''GET'', path = ''/static/missing.woff'', form_data = Map.empty\<rparr>)
      ''X-XSS-Protection'' = Some ''1; mode=block'' \<and>
   get_header (middleware not_found
      \<lparr>http_method = ''GET'', path = ''/static/missing.woff'', form_data = Map.empty\<rparr>)
      ''Cache-Control'' = Some ''no-store''"
  using security_and_cache_headers [of not_found
      "\<lparr>http_method = ''GET'', path = ''/static/missing.woff'', form_data = Map.empty\<rparr>"]
  by (simp add: status_code_middleware not_found_def)

lemma splitext_examples:
  "snd (splitext ''/static/fonts/site.woff2'') = ''.woff2''"
  "snd (splitext ''/static/fonts/site.ttf'') = ''.ttf''"
  "snd (splitext ''/static/site.woff'') = ''.woff''"
  "snd (splitext ''/about'') = []"
  by code_simp+

text \<open>
  Claim C9. For a request whose path has the extension \<open>.ttf\<close>, \<open>.woff\<close> or \<open>.woff2\<close>
  (the second component of \<^verbatim>\<open>os.path.splitext\<close>), the response leaves the stack with
  \<open>Content-Type\<close> \<open>font/ttf\<close>, \<open>font/woff\<close> or \<open>font/woff2\<close>, whatever the endpoint
  answered and with whatever status; for any other extension the header is the
  endpoint's own, and \<^const>\<open>fix_mime_type\<close> returns the response it was given.
\<close>

theorem font_content_type:
  "(snd (splitext (path req)) = ''.ttf'' \<longrightarrow>
      get_header (middleware endpoint req) ''Content-Type'' = Some ''font/ttf'') \<and>
   (snd (splitext (path req)) = ''.woff'' \<longrightarrow>
      get_header (middleware endpoint req) ''Content-Type'' = Some ''font/woff'') \<and>
   (snd (splitext (path req)) = ''.woff2'' \<longrightarrow>
      get_header (middleware endpoint req) ''Content-Type'' = Some ''font/woff2'') \<and>
   (snd (splitext (path req)) \<notin> {''.ttf'', ''.woff'', ''.woff2''} \<longrightarrow>
      get_header (middleware endpoint req) ''Content-Type''
        = get_header (endpoint req) ''Content-Type'' \<and>
      fix_mime_type req call_next = call_next req)"
  by (simp add: get_header_def headers_middleware lower_header_names Let_def content_types_def
      fix_mime_type_def)

text \<open>
  A font that does not exist: the 404 answer leaves with \<open>font/woff2\<close>. A page path: the
  header is the endpoint's.
\<close>

theorem font_content_type_witness:
  "snd (splitext ''/static/fonts/site.woff2'') = ''.woff2'' \<and>
   get_header (middleware not_found
      \<lparr>http_method = ''GET'', path = ''/static/fonts/site.woff2'', form_data = Map.empty\<rparr>)
      ''Content-Type'' = Some ''font/woff2'' \<and>
   snd (splitext ''/about'') \<notin> {''.ttf'', ''.woff'', ''.woff2''} \<and>
   get_header (middleware not_found
      \<lparr>http_method = ''GET'', path = ''/about'', form_data = Map.empty\<rparr>) ''Content-Type''
     = get_header (not_found \<lparr>http_method = ''GET'', path = ''/about'', form_data = Map.empty\<rparr>)
         ''Content-Type''"
  using font_content_type [of
      "\<lparr>http_method = ''GET'', path = ''/static/fonts/site.woff2'', form_data = Map.empty\<rparr>"
      not_found not_found]
    font_content_type [of
      "\<lparr>http_method = ''GET'', path = ''/about'', form_data = Map.empty\<rparr>" not_found not_found]
  by (simp add: splitext_examples)

section \<open>The form routes\<close>

lemma router_contact_us:
  "http_method req = ''POST'' \<Longrightarrow> path req = ''/contact-us'' \<Longrightarrow>
   router EmailStr int_validator getenv other req = post_contact_us EmailStr getenv (form_data req)"
  by (simp add: router_def page_routes_def)

lemma router_reserve_table:
  "http_method req = ''POST'' \<Longrightarrow> path req = ''/reserve-table'' \<Longrightarrow>
   router EmailStr int_validator getenv other req
     = post_reserve_table int_validator getenv (form_data req)"
  by (simp add: router_def page_routes_def)

lemma router_page:
  "http_method req = ''GET'' \<Longrightarrow> path req \<in> set page_routes \<Longrightarrow>
   router EmailStr int_validator getenv other req = render_page req"
  by (simp add: router_def)

lemma location_middleware:
  "get_header (middleware endpoint req) ''Location'' = get_header (endpoint req) ''Location''"
  by (simp add: get_header_def headers_middleware lower_header_names Let_def split: option.splits)

lemma RedirectResponse_fields:
  "status_code (RedirectResponse url code) = code"
  "get_header (RedirectResponse url code) ''Location'' = Some url"
  "get_header (RedirectResponse url code\<lparr>background := ts\<rparr>) ''Location'' = Some url"
  by (simp_all add: RedirectResponse_def get_header_def set_header_def lower_header_names)

lemma post_contact_us_valid:
  assumes "f ''name'' = Some name" "name \<noteq> []"
    and "f ''email'' = Some email" "email \<noteq> []" "EmailStr email = Some address"
    and "f ''message'' = Some message" "message \<noteq> []"
  shows "post_contact_us EmailStr getenv f =
     (RedirectResponse ''/contact'' 302)
       \<lparr>background := [send_email (get_email_config getenv) (''Contact Form: '' @ name)
          (create_html_content
             [(''name'', PyStr name), (''email'', PyStr address), (''message'', PyStr message)])]\<rparr>"
  using assms
  by (simp add: post_contact_us_def Form_required_def validated_def contact_form_def add_task_def
      Let_def)

lemma post_contact_us_invalid_email:
  assumes "f ''email'' = Some email" "EmailStr email = None"
  shows "status_code (post_contact_us EmailStr getenv f) = 422"
    and "background (post_contact_us EmailStr getenv f) = []"
  using assms
  by (simp_all add: post_contact_us_def Form_required_def validated_def Let_def
      RequestValidationError_def split: sum.splits option.splits)

text \<open>
  Claim C2. A contact submission with a non-empty name, an address the validator accepts
  and a non-empty message is answered with a 302 redirect to \<open>/contact\<close>, and exactly one
  task is scheduled: a \<^verbatim>\<open>send_email\<close> whose subject is \<open>Contact Form: \<close> followed by the
  submitted name.
\<close>

theorem contact_submission_accepted:
  assumes "http_method req = ''POST''" and "path req = ''/contact-us''"
    and "form_data req ''name'' = Some name" and "name \<noteq> []"
    and "form_data req ''email'' = Some email" and "email \<noteq> []"
    and "EmailStr email = Some address"
    and "form_data req ''message'' = Some message" and "message \<noteq> []"
  shows "status_code (app EmailStr int_validator getenv other req) = 302 \<and>
         get_header (app EmailStr int_validator getenv other req) ''Location'' = Some ''/contact'' \<and>
         background (app EmailStr int_validator getenv other req) =
           [send_email (get_email_config getenv) (''Contact Form: '' @ name)
              (create_html_content
                 [(''name'', PyStr name), (''email'', PyStr address), (''message'', PyStr message)])]"
proof -
  have r: "router EmailStr int_validator getenv other req =
     (RedirectResponse ''/contact'' 302)
       \<lparr>background := [send_email (get_email_config getenv) (''Contact Form: '' @ name)
          (create_html_content
             [(''name'', PyStr name), (''email'', PyStr address), (''message'', PyStr message)])]\<rparr>"
    using assms by (simp add: router_contact_us post_contact_us_valid)
  show ?thesis
    by (simp add: app_def status_code_middleware background_middleware location_middleware r
        RedirectResponse_fields)
qed

theorem contact_submission_accepted_witness:
  "status_code (app plain_address decimal_int example_env not_found
      \<lparr>http_method = ''POST'', path = ''/contact-us'',
       form_data = [''name'' \<mapsto> ''Ada'', ''email'' \<mapsto> ''ada@example.com'',
                    ''message'' \<mapsto> ''A table by the window'']\<rparr>) = 302 \<and>
   get_header (app plain_address decimal_int example_env not_found
      \<lparr>http_method = ''POST'', path = ''/contact-us'',
       form_data = [''name'' \<mapsto> ''Ada'', ''email'' \<mapsto> ''ada@example.com'',
                    ''message'' \<mapsto> ''A table by the window'']\<rparr>) ''Location''
     = Some ''/contact'' \<and>
   map task_subject (background (app plain_address decimal_int example_env not_found
      \<lparr>http_method = ''POST'', path = ''/contact-us'',
       form_data = [''name'' \<mapsto> ''Ada'', ''email'' \<mapsto> ''ada@example.com'',
                    ''message'' \<mapsto> ''A table by the window'']\<rparr>)) = [''Contact Form: Ada'']"
proof -
  have v: "plain_address ''ada@example.com'' = Some ''ada@example.com''"
    by code_simp
  show ?thesis
    using contact_submission_accepted [of
      "\<lparr>http_method = ''POST'', path = ''/contact-us'',
       form_data = [''name'' \<mapsto> ''Ada'', ''email'' \<mapsto> ''ada@example.com'',
                    ''message'' \<mapsto> ''A table by the window'']\<rparr>"
      "''Ada''" "''ada@example.com''" plain_address "''ada@example.com''"
      "''A table by the window''" decimal_int example_env not_found]
    by (simp add: v)
qed

text \<open>
  Claim C4. A contact submission whose email field the address validator rejects is
  answered with the validation error 422, a 4xx status, and no task is scheduled: the
  handler, which is what schedules the email, is not called.
\<close>

theorem contact_invalid_email_rejected:
  assumes "http_method req = ''POST''" and "path req = ''/contact-us''"
    and "form_data req ''email'' = Some email" and "EmailStr email = None"
  shows "status_code (app EmailStr int_validator getenv other req) = 422 \<and>
         400 \<le> status_code (app EmailStr int_validator getenv other req) \<and>
         status_code (app EmailStr int_validator getenv other req) < 500 \<and>
         background (app EmailStr int_validator getenv other req) = []"
  using assms
  by (simp add: app_def status_code_middleware background_middleware router_contact_us
      post_contact_us_invalid_email)

theorem contact_invalid_email_rejected_witness:
  "plain_address ''not an address'' = None \<and>
   status_code (app plain_address decimal_int example_env not_found
      \<lparr>http_method = ''POST'', path = ''/contact-us'',
       form_data = [''name'' \<mapsto> ''Ada'', ''email'' \<mapsto> ''not an address'',
                    ''message'' \<mapsto> ''A table by the window'']\<rparr>) = 422 \<and>
   background (app plain_address decimal_int example_env not_found
      \<lparr>http_method = ''POST'', path = ''/contact-us'',
       form_data = [''name'' \<mapsto> ''Ada'', ''email'' \<mapsto> ''not an address'',
                    ''message'' \<mapsto> ''A table by the window'']\<rparr>) = []"
proof -
  have v: "plain_address ''not an address'' = None"
    by code_simp
  show ?thesis
    using contact_invalid_email_rejected [of
      "\<lparr>http_method = ''POST'', path = ''/contact-us'',
       form_data = [''name'' \<mapsto> ''Ada'', ''email'' \<mapsto> ''not an address'',
                    ''message'' \<mapsto> ''A table by the window'']\<rparr>"
      "''not an address''" plain_address decimal_int example_env not_found]
    by (simp add: v)
qed

section \<open>The reservation route\<close>

text \<open>The \<^verbatim>\<open>try\<close> block never reformats: every date comes back as submitted.\<close>

lemma format_date_keeps_input: "format_date datetime date = date"
  by (simp add: format_date_def getattr_strptime_def split: option.splits)

lemma post_reserve_table_valid:
  assumes "f ''partysize'' = Some p" "p \<noteq> []" "int_validator p = Some n"
    and "f ''date'' = Some d" "d \<noteq> []"
    and "f ''time'' = Some t" "t \<noteq> []"
  shows "post_reserve_table int_validator getenv f =
     (RedirectResponse ''/bar'' 302)
       \<lparr>background := [send_email (get_email_config getenv) ''Table Reservation Request''
          (create_html_content
             [(''Party Size'', PyInt n), (''Date'', PyStr d), (''Time'', PyStr t)])]\<rparr>"
  using assms
  by (simp add: post_reserve_table_def Form_required_def validated_def reserve_table_def
      add_task_def Let_def format_date_keeps_input)

lemma post_reserve_table_invalid_partysize:
  assumes "f ''partysize'' = None \<or> (\<exists>v. f ''partysize'' = Some v \<and> int_validator v = None)"
  shows "status_code (post_reserve_table int_validator getenv f) = 422"
    and "background (post_reserve_table int_validator getenv f) = []"
  using assms
  by (auto simp add: post_reserve_table_def Form_required_def validated_def Let_def
      RequestValidationError_def split: sum.splits option.splits)

lemma post_reserve_table_without_datetime:
  "post_reserve_table int_validator getenv f =
     (case (validated int_validator ''partysize'' (Form_required f ''partysize''),
            Form_required f ''date'', Form_required f ''time'') of
        (Inr p, Inr d, Inr t) \<Rightarrow>
          (RedirectResponse ''/bar'' 302)
            \<lparr>background := [send_email (get_email_config getenv) ''Table Reservation Request''
               (create_html_content
                  [(''Party Size'', PyInt p), (''Date'', PyStr d), (''Time'', PyStr t)])]\<rparr>
      | (r1, r2, r3) \<Rightarrow> RequestValidationError (errors r1 @ errors r2 @ errors r3))"
  by (simp add: post_reserve_table_def reserve_table_def add_task_def Let_def
      format_date_keeps_input split: sum.splits)

lemma post_reserve_table_ignores_datetime:
  assumes "f1 ''partysize'' = f2 ''partysize''" "f1 ''date'' = f2 ''date''"
    "f1 ''time'' = f2 ''time''"
  shows "post_reserve_table int_validator getenv f1 = post_reserve_table int_validator getenv f2"
proof -
  have "Form_required f1 ''partysize'' = Form_required f2 ''partysize''"
    "Form_required f1 ''date'' = Form_required f2 ''date''"
    "Form_required f1 ''time'' = Form_required f2 ''time''"
    using assms by (simp_all add: Form_required_def)
  then show ?thesis
    by (simp only: post_reserve_table_without_datetime)
qed

lemma add_headers_cong:
  "endpoint req1 = endpoint req2 \<Longrightarrow> add_headers req1 endpoint = add_headers req2 endpoint"
  unfolding add_headers_def by (simp only:)

lemma middleware_cong:
  assumes "endpoint req1 = endpoint req2" and "path req1 = path req2"
  shows "middleware endpoint req1 = middleware endpoint req2"
proof -
  have "add_headers req1 endpoint = add_headers req2 endpoint"
    using assms(1) by (rule add_headers_cong)
  then show ?thesis
    unfolding middleware_def fix_mime_type_def using assms(2) by (simp only:)
qed

lemma concrete_validations:
  "decimal_int ''4'' = Some 4"
  "decimal_int ''0'' = Some 0"
  "decimal_int ''-3'' = Some (- 3)"
  "decimal_int ''four'' = None"
  "strptime_dmy ''not-a-date'' = Inl ValueError"
  by code_simp+

text \<open>
  Claim C3. A reservation submission that validates (an integer party size, a date and a
  time) and whose date does not parse as day/month/year is answered with a 302 redirect to
  \<open>/bar\<close>, not with an error, and the one email scheduled carries the date exactly as it
  was submitted.
\<close>

theorem unparseable_date_kept:
  assumes "http_method req = ''POST''" and "path req = ''/reserve-table''"
    and "form_data req ''partysize'' = Some p" and "p \<noteq> []" and "int_validator p = Some n"
    and "form_data req ''date'' = Some d" and "d \<noteq> []"
    and "form_data req ''time'' = Some t" and "t \<noteq> []"
    and "strptime_dmy d = Inl e"
  shows "format_date (Form_optional (form_data req) ''datetime'') d = d \<and>
         status_code (app EmailStr int_validator getenv other req) = 302 \<and>
         get_header (app EmailStr int_validator getenv other req) ''Location'' = Some ''/bar'' \<and>
         background (app EmailStr int_validator getenv other req) =
           [send_email (get_email_config getenv) ''Table Reservation Request''
              (create_html_content
                 [(''Party Size'', PyInt n), (''Date'', PyStr d), (''Time'', PyStr t)])]"
proof -
  have r: "router EmailStr int_validator getenv other req =
     (RedirectResponse ''/bar'' 302)
       \<lparr>background := [send_email (get_email_config getenv) ''Table Reservation Request''
          (create_html_content
             [(''Party Size'', PyInt n), (''Date'', PyStr d), (''Time'', PyStr t)])]\<rparr>"
    using assms by (simp add: router_reserve_table post_reserve_table_valid)
  show ?thesis
    by (simp add: app_def status_code_middleware background_middleware location_middleware r
        RedirectResponse_fields format_date_keeps_input)
qed

theorem unparseable_date_kept_witness:
  "strptime_dmy ''not-a-date'' = Inl ValueError \<and>
   status_code (app plain_address decimal_int example_env not_found
      \<lparr>http_method = ''POST'', path = ''/reserve-table'',
       form_data = [''partysize'' \<mapsto> ''4'', ''date'' \<mapsto> ''not-a-date'',
                    ''time'' \<mapsto> ''19:30'']\<rparr>) = 302 \<and>
   get_header (app plain_address decimal_int example_env not_found
      \<lparr>http_method = ''POST'', path = ''/reserve-table'',
       form_data = [''partysize'' \<mapsto> ''4'', ''date'' \<mapsto> ''not-a-date'',
                    ''time'' \<mapsto> ''19:30'']\<rparr>) ''Location'' = Some ''/bar'' \<and>
   map task_content (background (app plain_address decimal_int example_env not_found
      \<lparr>http_method = ''POST'', path = ''/reserve-table'',
       form_data = [''partysize'' \<mapsto> ''4'', ''date'' \<mapsto> ''not-a-date'',
                    ''time'' \<mapsto> ''19:30'']\<rparr>)) =
     [create_html_content
        [(''Party Size'', PyInt 4), (''Date'', PyStr ''not-a-date''), (''Time'', PyStr ''19:30'')]]"
  using unparseable_date_kept [of
      "\<lparr>http_method = ''POST'', path = ''/reserve-table'',
       form_data = [''partysize'' \<mapsto> ''4'', ''date'' \<mapsto> ''not-a-date'',
                    ''time'' \<mapsto> ''19:30'']\<rparr>"
      "''4''" decimal_int 4 "''not-a-date''" "''19:30''" ValueError plain_address example_env
      not_found]
  by (simp add: concrete_validations)

text \<open>
  Claim C6, as amended. A reservation submission whose party size is missing or is
  rejected by the integer validator is answered with the validation error 422, a 4xx
  status, and no task is scheduled. (The parameter is declared \<^verbatim>\<open>int\<close> with no bound:
  zero and negative integers validate.)
\<close>

theorem partysize_not_an_integer_rejected:
  assumes "http_method req = ''POST''" and "path req = ''/reserve-table''"
    and "form_data req ''partysize'' = None \<or>
         (\<exists>v. form_data req ''partysize'' = Some v \<and> int_validator v = None)"
  shows "status_code (app EmailStr int_validator getenv other req) = 422 \<and>
         400 \<le> status_code (app EmailStr int_validator getenv other req) \<and>
         status_code (app EmailStr int_validator getenv other req) < 500 \<and>
         background (app EmailStr int_validator getenv other req) = []"
  using assms
  by (simp add: app_def status_code_middleware background_middleware router_reserve_table
      post_reserve_table_invalid_partysize)

theorem partysize_not_an_integer_rejected_witness:
  "decimal_int ''four'' = None \<and>
   status_code (app plain_address decimal_int example_env not_found
      \<lparr>http_method = ''POST'', path = ''/reserve-table'',
       form_data = [''partysize'' \<mapsto> ''four'', ''date'' \<mapsto> ''25/12/2024'',
                    ''time'' \<mapsto> ''19:30'']\<rparr>) = 422 \<and>
   background (app plain_address decimal_int example_env not_found
      \<lparr>http_method = ''POST'', path = ''/reserve-table'',
       form_data = [''partysize'' \<mapsto> ''four'', ''date'' \<mapsto> ''25/12/2024'',
                    ''time'' \<mapsto> ''19:30'']\<rparr>) = [] \<and>
   status_code (app plain_address decimal_int example_env not_found
      \<lparr>http_method = ''POST'', path = ''/reserve-table'',
       form_data = [''date'' \<mapsto> ''25/12/2024'', ''time'' \<mapsto> ''19:30'']\<rparr>) = 422"
  using partysize_not_an_integer_rejected [of
      "\<lparr>http_method = ''POST'', path = ''/reserve-table'',
       form_data = [''partysize'' \<mapsto> ''four'', ''date'' \<mapsto> ''25/12/2024'',
                    ''time'' \<mapsto> ''19:30'']\<rparr>" decimal_int plain_address example_env not_found]
    partysize_not_an_integer_rejected [of
      "\<lparr>http_method = ''POST'', path = ''/reserve-table'',
       form_data = [''date'' \<mapsto> ''25/12/2024'', ''time'' \<mapsto> ''19:30'']\<rparr>"
       decimal_int plain_address example_env not_found]
  by (simp add: concrete_validations)

text \<open>
  Claim C6 as stated fails: the party sizes \<open>0\<close> and \<open>-3\<close> are integers, the
  submissions are answered with the 302 redirect and one email each is scheduled.
\<close>

theorem partysize_zero_or_negative_accepted:
  "decimal_int ''0'' = Some 0 \<and> decimal_int ''-3'' = Some (- 3) \<and>
   status_code (app plain_address decimal_int example_env not_found
      \<lparr>http_method = ''POST'', path = ''/reserve-table'',
       form_data = [''partysize'' \<mapsto> ''0'', ''date'' \<mapsto> ''25/12/2024'',
                    ''time'' \<mapsto> ''19:30'']\<rparr>) = 302 \<and>
   length (background (app plain_address decimal_int example_env not_found
      \<lparr>http_method = ''POST'', path = ''/reserve-table'',
       form_data = [''partysize'' \<mapsto> ''0'', ''date'' \<mapsto> ''25/12/2024'',
                    ''time'' \<mapsto> ''19:30'']\<rparr>)) = 1 \<and>
   status_code (app plain_address decimal_int example_env not_found
      \<lparr>http_method = ''POST'', path = ''/reserve-table'',
       form_data = [''partysize'' \<mapsto> ''-3'', ''date'' \<mapsto> ''25/12/2024'',
                    ''time'' \<mapsto> ''19:30'']\<rparr>) = 302 \<and>
   length (background (app plain_address decimal_int example_env not_found
      \<lparr>http_method = ''POST'', path = ''/reserve-table'',
       form_data = [''partysize'' \<mapsto> ''-3'', ''date'' \<mapsto> ''25/12/2024'',
                    ''time'' \<mapsto> ''19:30'']\<rparr>)) = 1"
  by (simp add: app_def status_code_middleware background_middleware router_reserve_table
      post_reserve_table_valid concrete_validations RedirectResponse_fields)

text \<open>
  Claim C10. Two reservation submissions that agree on party size, date and time get the
  same response, with the same scheduled email (subject and content), whatever their
  \<open>datetime\<close> fields are and whether or not they are present.
\<close>

theorem datetime_field_ignored:
  assumes "http_method req1 = ''POST''" and "path req1 = ''/reserve-table''"
    and "http_method req2 = ''POST''" and "path req2 = ''/reserve-table''"
    and "form_data req1 ''partysize'' = form_data req2 ''partysize''"
    and "form_data req1 ''date'' = form_data req2 ''date''"
    and "form_data req1 ''time'' = form_data req2 ''time''"
  shows "app EmailStr int_validator getenv other req1 = app EmailStr int_validator getenv other req2"
proof -
  have "router EmailStr int_validator getenv other req1
      = router EmailStr int_validator getenv other req2"
    using assms(1-4) post_reserve_table_ignores_datetime [OF assms(5-7)]
    by (simp add: router_reserve_table)
  moreover have "path req1 = path req2"
    using assms(2,4) by simp
  ultimately show ?thesis
    unfolding app_def by (rule middleware_cong)
qed

theorem datetime_field_ignored_witness:
  "app plain_address decimal_int example_env not_found
      \<lparr>http_method = ''POST'', path = ''/reserve-table'',
       form_data = [''partysize'' \<mapsto> ''4'', ''date'' \<mapsto> ''25/12/2024'',
                    ''time'' \<mapsto> ''19:30'', ''datetime'' \<mapsto> ''2024-12-25T19:30'']\<rparr>
   = app plain_address decimal_int example_env not_found
      \<lparr>http_method = ''POST'', path = ''/reserve-table'',
       form_data = [''partysize'' \<mapsto> ''4'', ''date'' \<mapsto> ''25/12/2024'',
                    ''time'' \<mapsto> ''19:30'']\<rparr>"
  using datetime_field_ignored [of
      "\<lparr>http_method = ''POST'', path = ''/reserve-table'',
       form_data = [''partysize'' \<mapsto> ''4'', ''date'' \<mapsto> ''25/12/2024'',
                    ''time'' \<mapsto> ''19:30'', ''datetime'' \<mapsto> ''2024-12-25T19:30'']\<rparr>"
      "\<lparr>http_method = ''POST'', path = ''/reserve-table'',
       form_data = [''partysize'' \<mapsto> ''4'', ''date'' \<mapsto> ''25/12/2024'',
                    ''time'' \<mapsto> ''19:30'']\<rparr>" plain_address decimal_int example_env not_found]
  by simp

text \<open>
  Claim C1. The date \<open>25/12/2024\<close> parses as day/month/year and its long month-name form
  is \<open>December 25, 2024\<close>, but the handler does not produce it: the attribute lookup on
  the \<open>datetime\<close> parameter fails first, and the email carries \<open>25/12/2024\<close>, with the
  field absent as well as present.
\<close>

theorem christmas_date_not_reformatted:
  "strptime_dmy ''25/12/2024'' = Inr \<lparr>year = 2024, month = 12, day = 25\<rparr> \<and>
   spec_format_date ''25/12/2024'' = ''December 25, 2024'' \<and>
   format_date None ''25/12/2024'' = ''25/12/2024'' \<and>
   format_date (Some ''2024-12-25T19:30'') ''25/12/2024'' = ''25/12/2024'' \<and>
   map task_content (background (app plain_address decimal_int example_env not_found
      \<lparr>http_method = ''POST'', path = ''/reserve-table'',
       form_data = [''partysize'' \<mapsto> ''4'', ''date'' \<mapsto> ''25/12/2024'',
                    ''time'' \<mapsto> ''19:30'']\<rparr>)) =
     [create_html_content
        [(''Party Size'', PyInt 4), (''Date'', PyStr ''25/12/2024''), (''Time'', PyStr ''19:30'')]]"
proof -
  have "strptime_dmy ''25/12/2024'' = Inr \<lparr>year = 2024, month = 12, day = 25\<rparr>"
    by code_simp
  moreover have "spec_format_date ''25/12/2024'' = ''December 25, 2024''"
    by code_simp
  ultimately show ?thesis
    by (simp add: app_def background_middleware router_reserve_table
      post_reserve_table_valid concrete_validations format_date_keeps_input)
qed

section \<open>The page routes\<close>

text \<open>
  What \<^const>\<open>strip\<close> returns is the input without a run of the given characters at each
  end, and it neither starts nor ends with one of them.
\<close>

lemma strip_decomposition:
  "\<exists>a b. s = a @ strip s chars @ b \<and> set a \<subseteq> set chars \<and> set b \<subseteq> set chars"
proof -
  let ?P = "\<lambda>c. c \<in> set chars"
  let ?m = "dropWhile ?P s"
  have "rev (takeWhile ?P (rev ?m) @ dropWhile ?P (rev ?m)) = rev (rev ?m)"
    by (simp only: takeWhile_dropWhile_id)
  then have m: "?m = rev (dropWhile ?P (rev ?m)) @ rev (takeWhile ?P (rev ?m))"
    by (simp only: rev_append rev_rev_ident)
  have "s = takeWhile ?P s @ ?m"
    by simp
  with m have "s = takeWhile ?P s @ strip s chars @ rev (takeWhile ?P (rev ?m))"
    by (simp add: strip_def lstrip_def rstrip_def)
  moreover have "set (takeWhile ?P s) \<subseteq> set chars"
    by (auto dest: set_takeWhileD)
  moreover have "set (rev (takeWhile ?P (rev ?m))) \<subseteq> set chars"
    by (auto dest: set_takeWhileD)
  ultimately show ?thesis
    by blast
qed

lemma strip_ends:
  assumes "strip s chars \<noteq> []"
  shows "hd (strip s chars) \<notin> set chars" and "last (strip s chars) \<notin> set chars"
proof -
  let ?P = "\<lambda>c. c \<in> set chars"
  let ?m = "dropWhile ?P s"
  let ?r = "dropWhile ?P (rev ?m)"
  have t: "strip s chars = rev ?r"
    by (simp add: strip_def lstrip_def rstrip_def)
  with assms have r: "?r \<noteq> []"
    by simp
  then have "\<not> ?P (hd ?r)"
    by (rule hd_dropWhile)
  then show "last (strip s chars) \<notin> set chars"
    using r by (simp add: t last_rev)
  have m: "?m \<noteq> []"
  proof
    assume "?m = []"
    then have "?r = []"
      by (simp only: rev.simps dropWhile.simps)
    with r show False
      by blast
  qed
  then have "\<not> ?P (hd ?m)"
    by (rule hd_dropWhile)
  moreover have "last ?r = last (rev ?m)"
    using r by (metis last_appendR takeWhile_dropWhile_id)
  ultimately show "hd (strip s chars) \<notin> set chars"
    using r m by (simp add: t hd_rev last_rev)
qed

lemma strip_examples:
  "strip ''/'' ''/'' = []"
  "strip ''/about'' ''/'' = ''about''"
  by code_simp+

lemma body_app_page:
  assumes "http_method req = ''GET''" and "path req \<in> set page_routes"
  shows "body (app EmailStr int_validator getenv other req) =
           Template ((if strip (path req) ''/'' = [] then ''index'' else strip (path req) ''/'')
                     @ ''.html'')"
    and "status_code (app EmailStr int_validator getenv other req) = 200"
  using assms
  by (simp_all add: app_def body_middleware status_code_middleware router_page render_page_def
      TemplateResponse_def Let_def)

text \<open>
  Claim C8. For a GET request on one of the seven page routes the response is the
  rendering of the template whose name is the path without its leading and trailing
  slashes, or \<open>index\<close> when nothing is left (the handler appends \<open>.html\<close>); path
  \<open>/\<close> renders the index template and path \<open>/about\<close> the about template.
\<close>

theorem page_template_from_path:
  assumes "http_method req = ''GET''" and "path req \<in> set page_routes"
  shows "(\<exists>a t b. path req = a @ t @ b \<and> set a \<subseteq> {CHR ''/''} \<and> set b \<subseteq> {CHR ''/''} \<and>
            (t = [] \<or> (hd t \<noteq> CHR ''/'' \<and> last t \<noteq> CHR ''/'')) \<and>
            body (app EmailStr int_validator getenv other req) =
              Template ((if t = [] then ''index'' else t) @ ''.html'')) \<and>
         status_code (app EmailStr int_validator getenv other req) = 200 \<and>
         (path req = ''/'' \<longrightarrow>
            body (app EmailStr int_validator getenv other req) = Template ''index.html'') \<and>
         (path req = ''/about'' \<longrightarrow>
            body (app EmailStr int_validator getenv other req) = Template ''about.html'')"
proof -
  let ?t = "strip (path req) ''/''"
  obtain a b where ab: "path req = a @ ?t @ b" "set a \<subseteq> set ''/''" "set b \<subseteq> set ''/''"
    using strip_decomposition [of "path req" "''/''"] by blast
  have ends: "?t = [] \<or> (hd ?t \<noteq> CHR ''/'' \<and> last ?t \<noteq> CHR ''/'')"
    using strip_ends [of "path req" "''/''"] by auto
  have b: "body (app EmailStr int_validator getenv other req) =
      Template ((if ?t = [] then ''index'' else ?t) @ ''.html'')"
    using assms by (rule body_app_page)
  have "\<exists>a t b. path req = a @ t @ b \<and> set a \<subseteq> {CHR ''/''} \<and> set b \<subseteq> {CHR ''/''} \<and>
            (t = [] \<or> (hd t \<noteq> CHR ''/'' \<and> last t \<noteq> CHR ''/'')) \<and>
            body (app EmailStr int_validator getenv other req) =
              Template ((if t = [] then ''index'' else t) @ ''.html'')"
    using ab ends b by (intro exI [of _ a] exI [of _ ?t] exI [of _ b]) simp
  moreover have "status_code (app EmailStr int_validator getenv other req) = 200"
    using assms by (rule body_app_page)
  moreover have "path req = ''/'' \<longrightarrow>
      body (app EmailStr int_validator getenv other req) = Template ''index.html''"
    using b by (simp add: strip_examples)
  moreover have "path req = ''/about'' \<longrightarrow>
      body (app EmailStr int_validator getenv other req) = Template ''about.html''"
    using b by (simp add: strip_examples)
  ultimately show ?thesis
    by blast
qed

theorem page_template_from_path_witness:
  "body (app plain_address decimal_int example_env not_found
      \<lparr>http_method = ''GET'', path = ''/'', form_data = Map.empty\<rparr>) = Template ''index.html'' \<and>
   body (app plain_address decimal_int example_env not_found
      \<lparr>http_method = ''GET'', path = ''/about'', form_data = Map.empty\<rparr>) = Template ''about.html'' \<and>
   status_code (app plain_address decimal_int example_env not_found
      \<lparr>http_method = ''GET'', path = ''/about'', form_data = Map.empty\<rparr>) = 200"
  using page_template_from_path [of
      "\<lparr>http_method = ''GET'', path = ''/'', form_data = Map.empty\<rparr>"
      plain_address decimal_int example_env not_found]
    page_template_from_path [of
      "\<lparr>http_method = ''GET'', path = ''/about'', form_data = Map.empty\<rparr>"
      plain_address decimal_int example_env not_found]
  by (simp add: page_routes_def)

section \<open>The content formatter escapes nothing\<close>

lemma title_name: "title ''name'' = ''Name''"
  by code_simp

lemma html_line_in_content:
  assumes "kv \<in> set data"
  shows "sublist (html_line kv) (create_html_content data)"
proof -
  from assms obtain xs ys where "data = xs @ kv # ys"
    by (auto dest: split_list)
  then have "create_html_content data =
      (html_head @ concat (map html_line xs)) @ html_line kv @ (concat (map html_line ys) @ html_tail)"
    by (simp add: create_html_content_def)
  then show ?thesis
    unfolding sublist_def by blast
qed

text \<open>
  Claim C7, as amended. For every input mapping and each of its pairs, the line
  \<open><p><b>Key:</b> value</p>\<close> with the title-cased key and the value as it is (not
  escaped) occurs in the generated fragment.
\<close>

theorem values_embedded_verbatim:
  assumes "(k, v) \<in> set data"
  shows "sublist (''<p><b>'' @ title k @ '':</b> '' @ format_value v @ ''</p>'')
           (create_html_content data)"
  using html_line_in_content [OF assms] by (simp add: html_line_def)

theorem values_embedded_verbatim_witness:
  "sublist ''<p><b>Name:</b> <script>alert(1)</script></p>''
     (create_html_content
        [(''name'', PyStr ''<script>alert(1)</script>''), (''email'', PyStr ''ada@example.com''),
         (''message'', PyStr ''hello'')])"
  using values_embedded_verbatim [of "''name''" "PyStr ''<script>alert(1)</script>''"
      "[(''name'', PyStr ''<script>alert(1)</script>''), (''email'', PyStr ''ada@example.com''),
        (''message'', PyStr ''hello'')]"]
  by (simp add: title_name)

text \<open>
  Claim C7 as stated fails: the value \<open><script>\<close> is embedded as markup, where the
  escaping formatter gives \<open>&lt;script&gt;\<close>.
\<close>

theorem markup_not_escaped:
  "create_html_content [(''name'', PyStr ''<script>'')]
     = html_head @ ''<p><b>Name:</b> <script></p>'' @ html_tail \<and>
   spec_create_html_content [(''name'', PyStr ''<script>'')]
     = html_head @ ''<p><b>Name:</b> &lt;script&gt;</p>'' @ html_tail \<and>
   create_html_content [(''name'', PyStr ''<script>'')]
     \<noteq> spec_create_html_content [(''name'', PyStr ''<script>'')]"
  by (simp add: create_html_content_def spec_create_html_content_def html_line_def
      spec_html_line_def html_escape_def escape_char_def title_name)

end
